theory Spec2Isabelle
  imports Complex_Main
begin

section \<open>Data model\<close>

text \<open>
  The enrollment routes read and write five tables: users, courses, lessons, enrollments
  and lesson_progress.  A table is the list of its rows in storage order; no uniqueness of
  keys is built into the type.
\<close>

text \<open>
  Modelled from the spec: the columns of the five tables.  The table declarations
  (db/schema) are not among the sources; the rows carry the columns the handlers touch and
  the ones the data model of the specification (its section 3) lists.  Identifiers are
  strings, timestamps are milliseconds since the epoch, nullable columns are options.
\<close>

type_synonym ident = string
type_synonym timestamp = int

record user_row =
  user_id :: ident
  user_name :: string
  user_role :: string

record course_row =
  course_id :: ident
  course_title :: string
  course_category :: "string option"
  course_level :: "string option"
  course_instructorId :: "ident option"
  course_enrollmentCount :: int

record lesson_row =
  lesson_id :: ident
  lesson_courseId :: ident
  lesson_order :: int

record enrollment_row =
  enr_id :: ident
  enr_userId :: ident
  enr_courseId :: ident
  enr_progress :: int
  enr_enrolledAt :: timestamp
  enr_lastAccessedAt :: "timestamp option"

record progress_row =
  lp_enrollmentId :: ident
  lp_lessonId :: ident
  lp_userId :: ident
  lp_completedAt :: "timestamp option"
  lp_timeSpent :: "int option"
  lp_lastPosition :: "int option"

record database =
  users :: "user_row list"
  courses :: "course_row list"
  lessons :: "lesson_row list"
  enrollments :: "enrollment_row list"
  lessonProgress :: "progress_row list"

section \<open>JavaScript numbers\<close>

text \<open>
  \<^verbatim>\<open>Math.round((completedCount / totalLessons) * 100)\<close> is computed on IEEE 754
  doubles: the quotient is rounded to the nearest double (ties to even), the product is
  rounded again, and \<^verbatim>\<open>Math.round\<close> takes the nearest integer with ties towards
  plus infinity.  A double is modelled by the rational it denotes, and \<open>fl\<close> rounds a
  rational to 53 significant bits.  The operands here are array lengths (below
  \<open>2 ^ 32\<close>), so every intermediate value is zero or lies between \<open>2 ^ - 32\<close> and
  \<open>100 * 2 ^ 32\<close>: the exponent range of doubles is never left and is not modelled.
\<close>

function ilog2 :: "rat \<Rightarrow> int" where
  "ilog2 x = (if x \<le> 0 then 0
              else if x < 1 then ilog2 (2 * x) - 1
              else if 2 \<le> x then ilog2 (x / 2) + 1
              else 0)"
  by pat_completeness auto
termination
proof (relation "measure (\<lambda>x. nat (if x < 1 then \<lceil>1 / x\<rceil> else \<lfloor>x\<rfloor>))", goal_cases)
  case 1
  show ?case by simp
next
  case (2 x)
  then have x: "0 < x" "x < 1" by simp_all
  show ?case
  proof (cases "2 * x < 1")
    case True
    have "1 / (2 * x) \<le> 1 / x - 1" using x True by (simp add: field_simps)
    then have "\<lceil>1 / (2 * x)\<rceil> \<le> \<lceil>1 / x - 1\<rceil>" by (rule ceiling_mono)
    moreover have "0 < \<lceil>1 / x\<rceil>" using x by simp
    ultimately show ?thesis using True x by simp
  next
    case False
    then have "\<lfloor>2 * x\<rfloor> = 1" using x by (simp add: floor_eq_iff)
    moreover have "1 < 1 / x" using x by simp
    then have "1 < \<lceil>1 / x\<rceil>" by (simp add: less_ceiling_iff)
    ultimately show ?thesis using False x by simp
  qed
next
  case (3 x)
  then have x: "2 \<le> x" by simp
  have "x / 2 \<le> x - 1" using x by simp
  then have "\<lfloor>x / 2\<rfloor> \<le> \<lfloor>x - 1\<rfloor>" by (rule floor_mono)
  moreover have "0 < \<lfloor>x\<rfloor>" using x by simp
  ultimately show ?case using x by simp
qed

declare ilog2.simps [simp del]

definition round_half_even :: "rat \<Rightarrow> int" where
  "round_half_even z =
     (let f = \<lfloor>z\<rfloor>; d = z - of_int f
      in if d < 1 / 2 then f
         else if 1 / 2 < d then f + 1
         else if even f then f else f + 1)"

definition fl :: "rat \<Rightarrow> rat" where
  "fl x = (if x = 0 then 0
           else let e = ilog2 \<bar>x\<bar> - 52
                in of_int (round_half_even (x / 2 powi e)) * 2 powi e)"

definition js_div :: "rat \<Rightarrow> rat \<Rightarrow> rat" where
  "js_div a b = fl (a / b)"

definition js_mul :: "rat \<Rightarrow> rat \<Rightarrow> rat" where
  "js_mul a b = fl (a * b)"

definition Math_round :: "rat \<Rightarrow> int" where
  "Math_round x = \<lfloor>x + 1 / 2\<rfloor>"

text \<open>
  Both the read and the progress-detail handler compute the percentage with the expression
  \<^verbatim>\<open>totalLessons > 0 ? Math.round((completedCount / totalLessons) * 100) : 0\<close>.
\<close>

definition calc_progress :: "nat \<Rightarrow> nat \<Rightarrow> int" where
  "calc_progress completedCount totalLessons =
     (if totalLessons > 0
      then Math_round (js_mul (js_div (of_nat completedCount) (of_nat totalLessons)) 100)
      else 0)"

text \<open>
  The specification's formula, read over the rationals: the nearest integer to
  \<open>100 * completedCount / totalLessons\<close> (\<^const>\<open>round\<close> is \<open>\<lfloor>x + 1 / 2\<rfloor>\<close>),
  and \<open>0\<close> for a course without lessons.  It is the reference the handlers'
  double-precision value is compared with.
\<close>

definition spec_progress :: "nat \<Rightarrow> nat \<Rightarrow> int" where
  "spec_progress completedCount totalLessons =
     (if totalLessons > 0
      then round (100 * of_nat completedCount / of_nat totalLessons :: rat)
      else 0)"

text \<open>
  \<open>half_way c t\<close>: the exact percentage \<open>100 * c / t\<close> lies half-way between two
  integers, that is, \<open>200 * c\<close> is an odd multiple of \<open>t\<close>.
\<close>

definition half_way :: "nat \<Rightarrow> nat \<Rightarrow> bool" where
  "half_way c t = (0 < t \<and> (200 * c + t) mod (2 * t) = 0)"

section \<open>Database statements\<close>

text \<open>
  Each query of the handlers is a function of the database value.  \<^verbatim>\<open>limit(1)\<close> keeps
  the first matching row, \<^verbatim>\<open>orderBy\<close> is a stable sort of the rows in storage order,
  and an update or delete applies to every row that satisfies its \<^verbatim>\<open>where\<close> clause.
  Statements are assumed to execute: a failure of the database engine (the only way into
  the handlers' catch-all status 500 branches of the read, progress and delete routes) is
  outside the model.
\<close>

definition select_enrollment :: "database \<Rightarrow> ident \<Rightarrow> enrollment_row list" where
  "select_enrollment db i = take 1 (filter (\<lambda>e. enr_id e = i) (enrollments db))"

definition select_course :: "database \<Rightarrow> ident \<Rightarrow> course_row list" where
  "select_course db courseId = take 1 (filter (\<lambda>c. course_id c = courseId) (courses db))"

definition select_lessons :: "database \<Rightarrow> ident \<Rightarrow> lesson_row list" where
  "select_lessons db courseId =
     sort_key lesson_order (filter (\<lambda>l. lesson_courseId l = courseId) (lessons db))"

definition select_progress :: "database \<Rightarrow> ident \<Rightarrow> ident \<Rightarrow> progress_row list" where
  "select_progress db i userId =
     filter (\<lambda>p. lp_enrollmentId p = i \<and> lp_userId p = userId) (lessonProgress db)"



definition select_user_enrollments ::
    "database \<Rightarrow> ident \<Rightarrow> (enrollment_row \<times> course_row \<times> string) list" where
  "select_user_enrollments db userId =
     sort_key (\<lambda>r. enr_enrolledAt (fst r))
       [(e, c, user_name u).
          e \<leftarrow> enrollments db,
          c \<leftarrow> courses db, enr_courseId e = course_id c,
          u \<leftarrow> users db, course_instructorId c = Some (user_id u),
          enr_userId e = userId]"

definition update_progress :: "database \<Rightarrow> ident \<Rightarrow> int \<Rightarrow> database" where
  "update_progress db i progress =
     db\<lparr>enrollments :=
          map (\<lambda>e. if enr_id e = i then e\<lparr>enr_progress := progress\<rparr> else e) (enrollments db)\<rparr>"

definition delete_enrollment :: "database \<Rightarrow> ident \<Rightarrow> database" where
  "delete_enrollment db i = db\<lparr>enrollments := filter (\<lambda>e. enr_id e \<noteq> i) (enrollments db)\<rparr>"

definition decrement_enrollmentCount :: "database \<Rightarrow> ident \<Rightarrow> database" where
  "decrement_enrollmentCount db courseId =
     db\<lparr>courses :=
          map (\<lambda>c. if course_id c = courseId
                    then c\<lparr>course_enrollmentCount := course_enrollmentCount c - 1\<rparr>
                    else c)
            (courses db)\<rparr>"

section \<open>Responses and traces\<close>

text \<open>
  A handler run is recorded as the database it leaves behind and the sequence of its
  observable steps, in program order: the statements it sends to the database, the
  exception caught by its own \<^verbatim>\<open>catch\<close> block, the response it writes, or the
  error with which its promise is rejected.  Tracing spans and log lines are not recorded.
\<close>

text \<open>
  The statements carry the values bound in their \<^verbatim>\<open>where\<close> clauses.  The response
  bodies follow the JSON objects of the handlers: an object spread \<^verbatim>\<open>...row\<close> is kept
  as the row itself, so \<open>ed_enrollment\<close> holds the enrollment fields of the read
  (\<^verbatim>\<open>progress\<close> included), \<open>ue_enrollment\<close> and \<open>ue_course\<close> the enrollment and
  course fields of a list element, and \<open>ls_lesson\<close> the lesson fields of a progress
  entry.
\<close>

datatype statement =
    SelectEnrollment ident
  | SelectCourse ident
  | SelectLessons ident
  | SelectProgress ident ident
  | SelectLessonProgress ident ident
  | SelectUserEnrollments ident
  | UpdateEnrollmentProgress ident int
  | DeleteEnrollment ident
  | DecrementEnrollmentCount ident

record enrollment_detail =
  ed_enrollment :: enrollment_row
  ed_course :: "course_row option"
  ed_lessons :: "lesson_row list"
  ed_completedLessons :: "ident list"

record user_enrollment =
  ue_enrollment :: enrollment_row
  ue_course :: course_row
  ue_instructor :: string

record lesson_status =
  ls_lesson :: lesson_row
  ls_completed :: bool
  ls_completedAt :: "timestamp option"
  ls_timeSpent :: int
  ls_lastPosition :: int

record progress_detail =
  pd_enrollmentId :: ident
  pd_courseId :: ident
  pd_totalLessons :: nat
  pd_completedLessons :: nat
  pd_progressPercentage :: int
  pd_totalTimeSpent :: int
  pd_lessons :: "lesson_status list"

datatype body =
    ErrorBody string
  | EnrollmentApproved ident ident
  | UserEnrollments "user_enrollment list"
  | EnrollmentDetail enrollment_detail
  | ProgressDetail progress_detail
  | Unenrolled ident

datatype event =
    Db statement
  | Caught string
  | Respond nat body
  | Reject string

record outcome =
  out_db :: database
  out_trace :: "event list"

section \<open>POST /enrollments\<close>

text \<open>
  The request body is a parsed JSON object that carries \<^verbatim>\<open>userId\<close> and
  \<^verbatim>\<open>courseId\<close>; a field is absent (\<open>None\<close>, standing for undefined and null) or a
  string.  \<^verbatim>\<open>!courseId\<close> holds of an absent field and of the empty string
  (\<open>falsy\<close>).  A response written without an explicit status has status 200.
\<close>

record enroll_request =
  req_userId :: "string option"
  req_courseId :: "string option"

definition falsy :: "string option \<Rightarrow> bool" where
  "falsy v = (case v of None \<Rightarrow> True | Some s \<Rightarrow> s = [])"

definition post_enrollments :: "database \<Rightarrow> enroll_request \<Rightarrow> outcome" where
  "post_enrollments db req =
     (let userId = req_userId req; courseId = req_courseId req;
          course_id_required =
            \<lparr>out_db = db, out_trace = [Respond 400 (ErrorBody ''Course ID is required.'')]\<rparr>
      in case courseId of
           None \<Rightarrow> course_id_required
         | Some cid \<Rightarrow>
             if cid = [] then course_id_required
             else
               let courseCheck = select_course db cid;
                   user_id_missing =
                     \<lparr>out_db = db,
                      out_trace =
                        [Db (SelectCourse cid),
                         Caught ''User ID is missing'',
                         Reject ''Failed to enroll in course'']\<rparr>
               in if length courseCheck = 0
                  then \<lparr>out_db = db,
                        out_trace =
                          [Db (SelectCourse cid),
                           Respond 404 (ErrorBody (''Course with id '' @ cid @ '' not found''))]\<rparr>
                  else (case userId of
                          None \<Rightarrow> user_id_missing
                        | Some uid \<Rightarrow>
                            if uid = [] then user_id_missing
                            else \<lparr>out_db = db,
                                  out_trace =
                                    [Db (SelectCourse cid),
                                     Respond 200 (EnrollmentApproved cid uid)]\<rparr>))"

text \<open>
  Modelled from the spec: what the HTTP framework does with a handler whose promise is
  rejected.  The application set-up that installs the error handling is not among the
  sources; the specification's interface table gives status 500 for it.  A written response
  is sent with its own status.
\<close>

fun framework_status :: "event list \<Rightarrow> nat option" where
  "framework_status [] = None"
| "framework_status (Respond status b # es) = Some status"
| "framework_status (Reject msg # es) = Some 500"
| "framework_status (e # es) = framework_status es"

section \<open>GET /enrollments/user/:userId\<close>

definition get_user_enrollments :: "database \<Rightarrow> ident \<Rightarrow> outcome" where
  "get_user_enrollments db userId =
     (let userEnrollments = select_user_enrollments db userId;
          result = map (\<lambda>(e, c, instructor).
                          \<lparr>ue_enrollment = e, ue_course = c, ue_instructor = instructor\<rparr>)
                       userEnrollments
      in \<lparr>out_db = db,
          out_trace = [Db (SelectUserEnrollments userId), Respond 200 (UserEnrollments result)]\<rparr>)"

section \<open>GET /enrollments/:id\<close>

text \<open>
  The response object spreads the enrollment row and then sets \<^verbatim>\<open>progress\<close>, so its
  enrollment fields are the row with the progress replaced; \<^verbatim>\<open>course[0]\<close> is undefined
  when the course row is missing.
\<close>

definition get_enrollment :: "database \<Rightarrow> ident \<Rightarrow> outcome" where
  "get_enrollment db i =
     (case select_enrollment db i of
        [] \<Rightarrow>
          \<lparr>out_db = db,
           out_trace = [Db (SelectEnrollment i), Respond 404 (ErrorBody ''Enrollment not found'')]\<rparr>
      | e # _ \<Rightarrow>
          let course = select_course db (enr_courseId e);
              courseLessons = select_lessons db (enr_courseId e);
              completedLessons = select_progress db i (enr_userId e);
              totalLessons = length courseLessons;
              completedCount = length (filter (\<lambda>l. lp_completedAt l \<noteq> None) completedLessons);
              progress = calc_progress completedCount totalLessons;
              reads = [Db (SelectEnrollment i), Db (SelectCourse (enr_courseId e)),
                       Db (SelectLessons (enr_courseId e)), Db (SelectProgress i (enr_userId e))];
              response = Respond 200 (EnrollmentDetail
                \<lparr>ed_enrollment = e\<lparr>enr_progress := progress\<rparr>,
                 ed_course = (case course of [] \<Rightarrow> None | c # _ \<Rightarrow> Some c),
                 ed_lessons = courseLessons,
                 ed_completedLessons = map lp_lessonId completedLessons\<rparr>)
          in if progress \<noteq> enr_progress e
             then \<lparr>out_db = update_progress db i progress,
                   out_trace = reads @ [Db (UpdateEnrollmentProgress i progress), response]\<rparr>
             else \<lparr>out_db = db, out_trace = reads @ [response]\<rparr>)"

section \<open>GET /enrollments/:id/progress\<close>

text \<open>
  \<^verbatim>\<open>p.progress?.timeSpent || 0\<close> is \<open>0\<close> without a progress row, and for a null or
  zero column.  The sum of the time spent is an integer below \<open>2 ^ 53\<close> in any database
  the server can hold, so the addition of doubles is exact and is modelled on \<open>int\<close>.
\<close>

definition or_zero :: "int option \<Rightarrow> int" where
  "or_zero v = (case v of None \<Rightarrow> 0 | Some n \<Rightarrow> n)"

definition lesson_status_of :: "lesson_row \<times> progress_row option \<Rightarrow> lesson_status" where
  "lesson_status_of r =
     (case r of
        (l, None) \<Rightarrow>
          \<lparr>ls_lesson = l, ls_completed = False, ls_completedAt = None,
           ls_timeSpent = 0, ls_lastPosition = 0\<rparr>
      | (l, Some p) \<Rightarrow>
          \<lparr>ls_lesson = l, ls_completed = (lp_completedAt p \<noteq> None),
           ls_completedAt = lp_completedAt p,
           ls_timeSpent = or_zero (lp_timeSpent p),
           ls_lastPosition = or_zero (lp_lastPosition p)\<rparr>)"




section \<open>DELETE /enrollments/:id\<close>

definition delete_enrollments :: "database \<Rightarrow> ident \<Rightarrow> outcome" where
  "delete_enrollments db i =
     (case select_enrollment db i of
        [] \<Rightarrow>
          \<lparr>out_db = db,
           out_trace = [Db (SelectEnrollment i), Respond 404 (ErrorBody ''Enrollment not found'')]\<rparr>
      | e # _ \<Rightarrow>
          \<lparr>out_db = decrement_enrollmentCount (delete_enrollment db i) (enr_courseId e),
           out_trace =
             [Db (SelectEnrollment i), Db (DeleteEnrollment i),
              Db (DecrementEnrollmentCount (enr_courseId e)),
              Respond 200 (Unenrolled i)]\<rparr>)"

section \<open>The import utility\<close>

text \<open>
  \<^verbatim>\<open>importDatabase\<close> handles the eight tables alike, one after the other, and never looks
  into a row, so the row type is a parameter.  A file of the export directory is missing,
  unreadable as JSON (the parse throws), or an array of rows.  The unique constraints of the
  tables are declared in db/schema, which is not among the sources: they enter as the
  parameter \<open>conflict\<close>, where \<open>conflict t r r'\<close> says that rows \<open>r\<close> and \<open>r'\<close> of
  table \<open>t\<close> agree on the primary key or on another unique key.
  \<^verbatim>\<open>insert(...).values(rows).onConflictDoNothing()\<close> adds the rows in order and skips
  a row that conflicts with one already in the table.  The result is the exit code of the
  process and the database it leaves; nothing is rolled back on an error.
\<close>

datatype table =
  Users | Categories | Courses | Lessons | Enrollments | LessonProgress | Reviews | Certificates

datatype 'a json_file = Missing | Unreadable | Parsed 'a

record 'row export_dir =
  metadata :: "(string \<times> nat) list json_file"
  files :: "table \<Rightarrow> 'row list json_file"

fun insert_on_conflict_do_nothing ::
    "('row \<Rightarrow> 'row \<Rightarrow> bool) \<Rightarrow> 'row list \<Rightarrow> 'row list \<Rightarrow> 'row list" where
  "insert_on_conflict_do_nothing cf [] tbl = tbl"
| "insert_on_conflict_do_nothing cf (r # rs) tbl =
     insert_on_conflict_do_nothing cf rs
       (if \<exists>r' \<in> set tbl. cf r r' then tbl else tbl @ [r])"

fun import_tables ::
    "(table \<Rightarrow> 'row \<Rightarrow> 'row \<Rightarrow> bool) \<Rightarrow> (table \<Rightarrow> 'row list json_file) \<Rightarrow> table list \<Rightarrow>
     (table \<Rightarrow> 'row list) \<Rightarrow> nat \<times> (table \<Rightarrow> 'row list)" where
  "import_tables conflict fs [] db = (0, db)"
| "import_tables conflict fs (t # ts) db =
     (case fs t of
        Missing \<Rightarrow> import_tables conflict fs ts db
      | Unreadable \<Rightarrow> (1, db)
      | Parsed rows \<Rightarrow>
          import_tables conflict fs ts
            (if length rows > 0
             then db(t := insert_on_conflict_do_nothing (conflict t) rows (db t))
             else db))"

definition import_order :: "table list" where
  "import_order =
     [Users, Categories, Courses, Lessons, Enrollments, LessonProgress, Reviews, Certificates]"

definition importDatabase ::
    "(table \<Rightarrow> 'row \<Rightarrow> 'row \<Rightarrow> bool) \<Rightarrow> 'row export_dir option \<Rightarrow>
     (table \<Rightarrow> 'row list) \<Rightarrow> nat \<times> (table \<Rightarrow> 'row list)" where
  "importDatabase conflict exportDir db =
     (case exportDir of
        None \<Rightarrow> (1, db)
      | Some dir \<Rightarrow>
          (case metadata dir of
             Missing \<Rightarrow> (1, db)
           | Unreadable \<Rightarrow> (1, db)
           | Parsed summary \<Rightarrow> import_tables conflict (files dir) import_order db))"

section \<open>Observations on a run\<close>

text \<open>
  The quantities the specification speaks about: the number of lessons of a course, the
  number of completed progress rows of an enrollment and user, the response a run writes,
  and the statements of a trace that change the database.
\<close>

definition total_lessons :: "database \<Rightarrow> ident \<Rightarrow> nat" where
  "total_lessons db courseId = length (filter (\<lambda>l. lesson_courseId l = courseId) (lessons db))"

definition completed_count :: "database \<Rightarrow> ident \<Rightarrow> ident \<Rightarrow> nat" where
  "completed_count db i userId =
     length (filter (\<lambda>p. lp_enrollmentId p = i \<and> lp_userId p = userId \<and> lp_completedAt p \<noteq> None)
               (lessonProgress db))"


definition stored_progress :: "database \<Rightarrow> ident \<Rightarrow> int option" where
  "stored_progress db i =
     (case select_enrollment db i of [] \<Rightarrow> None | e # _ \<Rightarrow> Some (enr_progress e))"

fun response_of :: "event list \<Rightarrow> (nat \<times> body) option" where
  "response_of [] = None"
| "response_of (Respond status b # es) = Some (status, b)"
| "response_of (e # es) = response_of es"

definition returned_detail :: "outcome \<Rightarrow> enrollment_detail option" where
  "returned_detail out =
     (case response_of (out_trace out) of
        Some (status, EnrollmentDetail d) \<Rightarrow> Some d
      | _ \<Rightarrow> None)"

definition returned_progress :: "outcome \<Rightarrow> int option" where
  "returned_progress out = map_option (\<lambda>d. enr_progress (ed_enrollment d)) (returned_detail out)"


definition returned_user_enrollments :: "outcome \<Rightarrow> user_enrollment list option" where
  "returned_user_enrollments out =
     (case response_of (out_trace out) of
        Some (status, UserEnrollments us) \<Rightarrow> Some us
      | _ \<Rightarrow> None)"





section \<open>Example databases\<close>

text \<open>
  Course C1, taught by T1, has lessons L1, L2, ... in this order; user U1 is enrolled in
  it through enrollment E1, stored with progress 0.  \<open>example_db t c\<close> holds \<open>t\<close> lessons
  of which U1 has completed the first \<open>c\<close>.
\<close>

fun decimal :: "nat \<Rightarrow> string" where
  "decimal n = (if n < 10 then [''0123456789'' ! n]
                else decimal (n div 10) @ [''0123456789'' ! (n mod 10)])"

declare decimal.simps [simp del]

definition user_U1 :: user_row where
  "user_U1 = \<lparr>user_id = ''U1'', user_name = ''Una'', user_role = ''student''\<rparr>"

definition user_T1 :: user_row where
  "user_T1 = \<lparr>user_id = ''T1'', user_name = ''Tom'', user_role = ''instructor''\<rparr>"

definition course_C1 :: course_row where
  "course_C1 =
     \<lparr>course_id = ''C1'', course_title = ''Tracing'', course_category = Some ''backend'',
      course_level = Some ''beginner'', course_instructorId = Some ''T1'',
      course_enrollmentCount = 1\<rparr>"

definition course_C2 :: course_row where
  "course_C2 = course_C1\<lparr>course_id := ''C2'', course_title := ''Logging'',
                          course_enrollmentCount := 0\<rparr>"

definition course_C3 :: course_row where
  "course_C3 = course_C1\<lparr>course_id := ''C3'', course_title := ''Profiling'',
                          course_instructorId := Some ''T9''\<rparr>"

definition lesson_n :: "nat \<Rightarrow> lesson_row" where
  "lesson_n n = \<lparr>lesson_id = ''L'' @ decimal n, lesson_courseId = ''C1'', lesson_order = int n\<rparr>"

definition enrollment_E1 :: enrollment_row where
  "enrollment_E1 =
     \<lparr>enr_id = ''E1'', enr_userId = ''U1'', enr_courseId = ''C1'', enr_progress = 0,
      enr_enrolledAt = 1000, enr_lastAccessedAt = None\<rparr>"

definition enrollment_E2 :: enrollment_row where
  "enrollment_E2 = enrollment_E1\<lparr>enr_id := ''E2'', enr_courseId := ''C9'', enr_enrolledAt := 2000\<rparr>"

definition enrollment_E3 :: enrollment_row where
  "enrollment_E3 = enrollment_E1\<lparr>enr_id := ''E3'', enr_courseId := ''C3'', enr_enrolledAt := 3000\<rparr>"

definition started_n :: "nat \<Rightarrow> progress_row" where
  "started_n n =
     \<lparr>lp_enrollmentId = ''E1'', lp_lessonId = ''L'' @ decimal n, lp_userId = ''U1'',
      lp_completedAt = None, lp_timeSpent = Some 30, lp_lastPosition = Some 30\<rparr>"

definition completed_n :: "nat \<Rightarrow> progress_row" where
  "completed_n n = (started_n n)\<lparr>lp_completedAt := Some 5000, lp_timeSpent := Some 60\<rparr>"

definition example_db :: "nat \<Rightarrow> nat \<Rightarrow> database" where
  "example_db t c =
     \<lparr>users = [user_U1, user_T1],
      courses = [course_C1],
      lessons = map lesson_n [1..<Suc t],
      enrollments = [enrollment_E1],
      lessonProgress = map completed_n [1..<Suc c]\<rparr>"

text \<open>Four lessons, two completed; forty lessons, twenty-three completed.\<close>

definition db_half :: database where
  "db_half = example_db 4 2"

definition db_tie :: database where
  "db_tie = example_db 40 23"

text \<open>As \<open>db_half\<close>, and U1 has opened lesson L3 without completing it.\<close>

definition db_started :: database where
  "db_started = db_half\<lparr>lessonProgress := [completed_n 1, completed_n 2, started_n 3]\<rparr>"

text \<open>
  Course C1 has the single lesson L1; lesson L2 belongs to course C2.  Enrollment E1 (in C1)
  has completed progress rows for both.
\<close>

definition db_over :: database where
  "db_over =
     \<lparr>users = [user_U1, user_T1],
      courses = [course_C1, course_C2],
      lessons = [lesson_n 1, (lesson_n 2)\<lparr>lesson_courseId := ''C2''\<rparr>],
      enrollments = [enrollment_E1],
      lessonProgress = [completed_n 1, completed_n 2]\<rparr>"


text \<open>
  U1 has three enrollments: E1 in C1, E2 in a course C9 that has no row, and E3 in C3, whose
  instructor T9 has no user row.
\<close>

definition db_orphans :: database where
  "db_orphans =
     (example_db 1 0)\<lparr>courses := [course_C1, course_C3],
                       enrollments := [enrollment_E1, enrollment_E2, enrollment_E3]\<rparr>"

text \<open>
  An export with two user rows that share the key 1, one course row and an empty array of
  reviews; rows are pairs of a key and a payload, and two rows conflict when their keys
  agree.
\<close>

definition same_key :: "table \<Rightarrow> nat \<times> string \<Rightarrow> nat \<times> string \<Rightarrow> bool" where
  "same_key t r r' = (fst r = fst r')"

definition example_export :: "(nat \<times> string) export_dir" where
  "example_export =
     \<lparr>metadata = Parsed [(''users'', 2), (''courses'', 1)],
      files = (\<lambda>t. case t of
                      Users \<Rightarrow> Parsed [(1, ''una''), (1, ''uma'')]
                    | Courses \<Rightarrow> Parsed [(7, ''tracing'')]
                    | Reviews \<Rightarrow> Parsed []
                    | _ \<Rightarrow> Missing)\<rparr>"

definition empty_db :: "table \<Rightarrow> (nat \<times> string) list" where
  "empty_db t = []"

section \<open>Rounding to a double\<close>

lemma ilog2_bounds:
  "0 < x \<Longrightarrow> 2 powi (ilog2 x) \<le> x \<and> x < 2 powi (ilog2 x + 1)"
proof (induction x rule: ilog2.induct)
  case (1 x)
  show ?case
  proof (cases "x < 1")
    case True
    with "1.prems" have ih: "2 powi (ilog2 (2 * x)) \<le> 2 * x \<and> 2 * x < 2 powi (ilog2 (2 * x) + 1)"
      using "1.IH"(1) by simp
    have e: "ilog2 x = ilog2 (2 * x) - 1"
      using True "1.prems" by (subst ilog2.simps) simp
    show ?thesis using ih unfolding e by (simp add: power_int_diff power_int_add)
  next
    case False
    show ?thesis
    proof (cases "2 \<le> x")
      case True
      with False "1.prems" have ih: "2 powi (ilog2 (x / 2)) \<le> x / 2 \<and> x / 2 < 2 powi (ilog2 (x / 2) + 1)"
        using "1.IH"(2) by simp
      have e: "ilog2 x = ilog2 (x / 2) + 1"
        using True False "1.prems" by (subst ilog2.simps) simp
      show ?thesis using ih unfolding e by (simp add: power_int_add)
    next
      case below: False
      have e: "ilog2 x = 0"
        using below False "1.prems" by (subst ilog2.simps) simp
      show ?thesis using below False unfolding e by simp
    qed
  qed
qed

lemma ilog2_unique:
  assumes "0 < x" "2 powi k \<le> x" "x < 2 powi (k + 1)"
  shows "ilog2 x = k"
proof -
  from ilog2_bounds [OF assms(1)]
  have b: "2 powi (ilog2 x) \<le> x" "x < 2 powi (ilog2 x + 1)" by simp_all
  have "(2::rat) powi k < 2 powi (ilog2 x + 1)" using assms(2) b(2) by simp
  then have "k < ilog2 x + 1"
    using power_int_increasing [of "ilog2 x + 1" k "2::rat"] by (cases "k < ilog2 x + 1") auto
  moreover have "(2::rat) powi (ilog2 x) < 2 powi (k + 1)" using assms(3) b(1) by simp
  then have "ilog2 x < k + 1"
    using power_int_increasing [of "k + 1" "ilog2 x" "2::rat"] by (cases "ilog2 x < k + 1") auto
  ultimately show ?thesis by simp
qed

lemma round_half_even_err: "\<bar>of_int (round_half_even z) - z\<bar> \<le> 1 / 2"
proof -
  have "of_int \<lfloor>z\<rfloor> \<le> z" "z < of_int \<lfloor>z\<rfloor> + 1" by linarith+
  then show ?thesis
    by (auto simp: round_half_even_def Let_def)
qed

lemma round_half_even_unique:
  assumes "\<bar>of_int n - z\<bar> < 1 / 2"
  shows "round_half_even z = n"
proof -
  have "\<bar>of_int (round_half_even z) - z\<bar> \<le> 1 / 2" by (rule round_half_even_err)
  with assms have "\<bar>(of_int (round_half_even z) :: rat) - of_int n\<bar> < 1" by linarith
  then have "\<bar>round_half_even z - n\<bar> < 1"
    by (metis of_int_diff of_int_abs of_int_less_1_iff)
  then show ?thesis by simp
qed

lemma fl_rel_err:
  assumes "0 < x"
  shows "\<bar>fl x - x\<bar> \<le> x / 2 ^ 53"
proof -
  define e where "e = ilog2 x - 52"
  define z where "z = x / 2 powi e"
  have pe: "(0::rat) < 2 powi e" by simp
  from ilog2_bounds [OF assms] have "2 powi (ilog2 x) \<le> x" by simp
  then have "2 powi (e + 52) \<le> x" by (simp add: e_def)
  then have lo: "2 ^ 52 * 2 powi e \<le> x" by (simp add: power_int_add mult.commute)
  have flx: "fl x = of_int (round_half_even z) * 2 powi e"
    using assms by (simp add: fl_def e_def z_def Let_def)
  have xz: "x = z * 2 powi e" by (simp add: z_def)
  have "fl x - x = (of_int (round_half_even z) - z) * 2 powi e"
    unfolding flx using xz by (simp add: left_diff_distrib)
  then have "\<bar>fl x - x\<bar> = \<bar>of_int (round_half_even z) - z\<bar> * 2 powi e"
    using pe by (simp add: abs_mult)
  also have "\<dots> \<le> 1 / 2 * 2 powi e"
    using round_half_even_err [of z] pe by (simp add: mult_right_mono)
  also have "\<dots> \<le> x / 2 ^ 53" using lo by simp
  finally show ?thesis .
qed

lemma fl_err: "0 \<le> x \<Longrightarrow> \<bar>fl x - x\<bar> \<le> x / 2 ^ 53"
  using fl_rel_err [of x] by (cases "x = 0") (simp_all add: fl_def)

lemma fl_nonneg:
  assumes "0 \<le> x"
  shows "0 \<le> fl x"
proof -
  have "x / 2 ^ 53 \<le> x" using assms by (simp add: field_simps)
  with fl_err [OF assms] show ?thesis by linarith
qed

lemma fl_eval:
  assumes "0 < x" "2 powi k \<le> x" "x < 2 powi (k + 1)"
    and "\<bar>of_int m - x / 2 powi (k - 52)\<bar> < 1 / 2"
  shows "fl x = of_int m * 2 powi (k - 52)"
proof -
  have "ilog2 \<bar>x\<bar> = k" using assms(1-3) by (simp add: ilog2_unique)
  moreover have "round_half_even (x / 2 powi (k - 52)) = m"
    using assms(4) by (rule round_half_even_unique)
  ultimately show ?thesis using assms(1) by (simp add: fl_def Let_def)
qed

section \<open>The percentage expression\<close>

lemma percent_err:
  fixes c t :: nat
  assumes t: "0 < t"
  defines "x \<equiv> (of_nat c :: rat) / of_nat t"
  defines "y \<equiv> js_mul (js_div (of_nat c) (of_nat t)) 100"
  shows "0 \<le> y" and "\<bar>y - 100 * x\<bar> \<le> 300 * (x / 2 ^ 53)"
proof -
  define x1 where "x1 = fl x"
  have x0: "0 \<le> x" by (simp add: x_def)
  have x1_0: "0 \<le> x1" unfolding x1_def using x0 by (rule fl_nonneg)
  have y_eq: "y = fl (x1 * 100)" by (simp add: y_def js_mul_def js_div_def x1_def x_def)
  show "0 \<le> y" unfolding y_eq using x1_0 by (intro fl_nonneg) simp
  define xd where "xd = x / 2 ^ 53"
  have xd: "0 \<le> xd" "xd \<le> x" using x0 by (simp_all add: xd_def field_simps)
  have e1: "\<bar>x1 - x\<bar> \<le> xd" unfolding x1_def xd_def using x0 by (rule fl_err)
  have "x1 * 100 \<le> 200 * x" using e1 xd by linarith
  then have "x1 * 100 / 2 ^ 53 \<le> 200 * x / 2 ^ 53" by (simp add: divide_right_mono)
  then have pd: "x1 * 100 / 2 ^ 53 \<le> 200 * xd" by (simp add: xd_def)
  have e2: "\<bar>y - x1 * 100\<bar> \<le> x1 * 100 / 2 ^ 53"
    unfolding y_eq using x1_0 by (intro fl_err) simp
  show "\<bar>y - 100 * x\<bar> \<le> 300 * (x / 2 ^ 53)"
    using e1 e2 pd unfolding xd_def [symmetric] by linarith
qed

lemma calc_progress_nonneg: "0 \<le> calc_progress c t"
  using percent_err(1) [of t c] by (simp add: calc_progress_def Math_round_def)

lemma calc_progress_le_100:
  assumes "c \<le> t"
  shows "calc_progress c t \<le> 100"
proof (cases "0 < t")
  case False
  then show ?thesis by (simp add: calc_progress_def)
next
  case True
  define x :: rat where "x = of_nat c / of_nat t"
  define y where "y = js_mul (js_div (of_nat c) (of_nat t)) 100"
  have x1: "x \<le> 1" "0 \<le> x" using assms True by (simp_all add: x_def)
  have "\<bar>y - 100 * x\<bar> \<le> 300 * (x / 2 ^ 53)"
    unfolding x_def y_def using True by (rule percent_err(2))
  moreover have "x / 2 ^ 53 \<le> 1 / 2 ^ 53" using x1 by (simp add: divide_right_mono)
  then have "x / 2 ^ 53 \<le> 1 / 1200" by simp
  ultimately have "y + 1 / 2 < 101" using x1 by linarith
  then have "y + 1 / 2 < of_int 101" by simp
  then have "\<lfloor>y + 1 / 2\<rfloor> < 101" by (simp only: floor_less_iff)
  then show ?thesis using True by (simp add: calc_progress_def Math_round_def y_def)
qed

lemma percent_close:
  fixes c t :: nat
  assumes "0 < t" "c < 2 ^ 43"
  shows "\<bar>js_mul (js_div (of_nat c) (of_nat t)) 100 - 100 * of_nat c / of_nat t\<bar>
           < 1 / (2 * of_nat t)"
proof -
  define y where "y = js_mul (js_div (of_nat c) (of_nat t)) 100"
  have "\<bar>y - 100 * (of_nat c / of_nat t)\<bar> \<le> 300 * ((of_nat c / of_nat t) / 2 ^ 53)"
    unfolding y_def using assms(1) by (rule percent_err(2))
  moreover have "(of_nat c :: rat) < 2 ^ 43" using assms(2)
    by (metis of_nat_less_iff of_nat_numeral of_nat_power)
  then have "600 * (of_nat c :: rat) < 2 ^ 53" by simp
  then have "300 * ((of_nat c / of_nat t) / 2 ^ 53) < 1 / (2 * (of_nat t :: rat))"
    using assms(1) by (simp add: field_simps)
  ultimately show ?thesis by (simp add: y_def)
qed

lemma calc_progress_vs_spec:
  fixes c t :: nat
  assumes c: "c < 2 ^ 43"
  shows "calc_progress c t \<le> spec_progress c t"
    and "spec_progress c t - 1 \<le> calc_progress c t"
    and "\<not> half_way c t \<Longrightarrow> calc_progress c t = spec_progress c t"
proof -
  have all: "calc_progress c t \<le> spec_progress c t \<and> spec_progress c t - 1 \<le> calc_progress c t
      \<and> (\<not> half_way c t \<longrightarrow> calc_progress c t = spec_progress c t)"
  proof (cases "0 < t")
    case False
    then show ?thesis by (simp add: calc_progress_def spec_progress_def)
  next
    case t: True
    define p where "p = calc_progress c t"
    define n where "n = spec_progress c t"
    define y where "y = js_mul (js_div (of_nat c) (of_nat t)) 100"
    define r :: rat where "r = 100 * of_nat c / of_nat t"
    define N :: int where "N = 200 * int c + int t"
    define D :: int where "D = 2 * int t"
    have D0: "0 < D" using t by (simp add: D_def)
    have rD: "(0::rat) < of_int D" using D0 by simp
    have close: "\<bar>y - r\<bar> < 1 / of_int D"
      using percent_close [OF t c] by (simp add: y_def r_def D_def)
    have rN: "r + 1 / 2 = of_int N / of_int D"
      using t by (simp add: r_def N_def D_def field_simps)
    have "n = \<lfloor>r + 1 / 2\<rfloor>" using t by (simp add: n_def spec_progress_def round_def r_def)
    then have n_eq: "n = N div D"
      unfolding rN by (simp only: floor_divide_of_int_eq)
    have split: "N = D * n + N mod D" unfolding n_eq by simp
    have m: "0 \<le> N mod D" "N mod D < D" using D0 by simp_all
    have rn: "r + 1 / 2 = of_int n + of_int (N mod D) / of_int D"
      unfolding rN using rD by (subst split) (simp add: field_simps)
    have p_eq: "p = \<lfloor>y + 1 / 2\<rfloor>"
      using t by (simp add: p_def calc_progress_def Math_round_def y_def)
    have "N mod D + 1 \<le> D" using m by simp
    then have "(of_int (N mod D) :: rat) + 1 \<le> of_int D"
      by (metis of_int_1 of_int_add of_int_le_iff)
    then have "(of_int (N mod D) + 1) / of_int D \<le> (1::rat)" using rD by simp
    then have up: "of_int (N mod D) / of_int D + 1 / of_int D \<le> (1::rat)"
      by (simp add: add_divide_distrib)
    have "y + 1 / 2 < of_int n + 1" using close rn up by linarith
    then have "y + 1 / 2 < of_int (n + 1)" by simp
    then have "\<lfloor>y + 1 / 2\<rfloor> < n + 1" by (simp only: floor_less_iff)
    then have pn: "p \<le> n" by (simp add: p_eq)
    have "(0::rat) \<le> of_int (N mod D) / of_int D" using m rD by simp
    moreover have "1 / of_int D \<le> (1::rat)" using D0 by simp
    ultimately have "of_int (n - 1) \<le> y + 1 / 2" using close rn by simp
    then have np: "n - 1 \<le> p" unfolding p_eq by (simp only: le_floor_iff)
    have "p = n" if nt: "\<not> half_way c t"
    proof -
      have "N mod D = int ((200 * c + t) mod (2 * t))"
        by (simp add: N_def D_def zmod_int)
      with nt t have "1 \<le> N mod D" using m by (simp add: half_way_def)
      then have "(1::rat) \<le> of_int (N mod D)" by simp
      then have "1 / of_int D \<le> (of_int (N mod D) :: rat) / of_int D"
        using rD by (simp add: divide_right_mono)
      then have "of_int n \<le> y + 1 / 2" using close rn by linarith
      then have "n \<le> p" unfolding p_eq by (simp only: le_floor_iff)
      with pn show ?thesis by simp
    qed
    with pn np show ?thesis unfolding p_def n_def by simp
  qed
  from all show "calc_progress c t \<le> spec_progress c t" by simp
  from all show "spec_progress c t - 1 \<le> calc_progress c t" by simp
  from all show "\<not> half_way c t \<Longrightarrow> calc_progress c t = spec_progress c t" by simp
qed

lemma fl_23_40: "fl (23 / 40) = 5179139571476070 / 2 ^ 53"
  using fl_eval [of "23 / 40" "-1" 5179139571476070] by (simp add: power_int_minus)

lemma fl_23_40_times_100: "fl (5179139571476070 / 2 ^ 53 * 100) = 8092405580431359 / 2 ^ 47"
  using fl_eval [of "5179139571476070 / 2 ^ 53 * 100" 5 8092405580431359]
  by (simp add: power_int_minus)

lemma calc_progress_23_40: "calc_progress 23 40 = 57"
proof -
  have a: "js_div 23 40 = 5179139571476070 / 2 ^ 53"
    unfolding js_div_def by (rule fl_23_40)
  have b: "js_mul (5179139571476070 / 2 ^ 53) 100 = 8092405580431359 / 2 ^ 47"
    unfolding js_mul_def by (rule fl_23_40_times_100)
  have "Math_round (8092405580431359 / 2 ^ 47) = 57"
    by (simp add: Math_round_def floor_eq_iff)
  then have "Math_round (js_mul (js_div 23 40) 100) = 57" by (simp only: a b)
  then show ?thesis by (simp add: calc_progress_def)
qed

lemma spec_progress_23_40: "spec_progress 23 40 = 58"
  by (simp add: spec_progress_def round_def floor_eq_iff)

lemma fl_200: "fl 200 = 200"
  using fl_eval [of 200 7 "200 * 2 ^ 45"] by (simp add: power_int_minus)

lemma fl_2: "fl 2 = 2"
  using fl_eval [of 2 1 "2 ^ 52"] by (simp add: power_int_minus)

lemma calc_progress_2_1: "calc_progress 2 1 = 200"
  by (simp add: calc_progress_def js_mul_def js_div_def fl_2 fl_200 Math_round_def floor_eq_iff)

section \<open>The example databases\<close>

lemma total_lessons_example [simp]: "total_lessons (example_db t c) ''C1'' = t"
  by (simp add: total_lessons_def example_db_def lesson_n_def filter_map o_def)

lemma completed_count_example [simp]: "completed_count (example_db t c) ''E1'' ''U1'' = c"
  by (simp add: completed_count_def example_db_def completed_n_def started_n_def filter_map o_def)

lemma select_enrollment_example [simp]:
  "select_enrollment (example_db t c) ''E1'' = [enrollment_E1]"
  by (simp add: select_enrollment_def example_db_def enrollment_E1_def)

lemma enrollment_E1_simps [simp]:
  "enr_id enrollment_E1 = ''E1''" "enr_userId enrollment_E1 = ''U1''"
  "enr_courseId enrollment_E1 = ''C1''" "enr_progress enrollment_E1 = 0"
  by (simp_all add: enrollment_E1_def)

section \<open>Reading one enrollment\<close>

lemma length_select_lessons: "length (select_lessons db courseId) = total_lessons db courseId"
  by (simp add: select_lessons_def total_lessons_def)

lemma completed_select_progress:
  "length (filter (\<lambda>l. lp_completedAt l \<noteq> None) (select_progress db i userId))
     = completed_count db i userId"
  by (simp add: select_progress_def completed_count_def conj_commute conj_left_commute)

lemma completed_select_progress_ex:
  "length (filter (\<lambda>l. \<exists>y. lp_completedAt l = Some y) (select_progress db i userId))
     = completed_count db i userId"
  using completed_select_progress [of db i userId] by simp

lemma get_enrollment_found:
  assumes "select_enrollment db i = e # es"
  defines "p \<equiv> calc_progress (completed_count db i (enr_userId e)) (total_lessons db (enr_courseId e))"
  defines "reads \<equiv> [Db (SelectEnrollment i), Db (SelectCourse (enr_courseId e)),
                     Db (SelectLessons (enr_courseId e)), Db (SelectProgress i (enr_userId e))]"
  defines "response \<equiv> Respond 200 (EnrollmentDetail
             \<lparr>ed_enrollment = e\<lparr>enr_progress := p\<rparr>,
              ed_course = (case select_course db (enr_courseId e) of [] \<Rightarrow> None | c # _ \<Rightarrow> Some c),
              ed_lessons = select_lessons db (enr_courseId e),
              ed_completedLessons = map lp_lessonId (select_progress db i (enr_userId e))\<rparr>)"
  shows "get_enrollment db i =
           (if p \<noteq> enr_progress e
            then \<lparr>out_db = update_progress db i p,
                  out_trace = reads @ [Db (UpdateEnrollmentProgress i p), response]\<rparr>
            else \<lparr>out_db = db, out_trace = reads @ [response]\<rparr>)"
  using assms(1)
  by (simp add: get_enrollment_def Let_def length_select_lessons completed_select_progress_ex
      p_def reads_def response_def)

lemma returned_progress_get_enrollment:
  assumes "select_enrollment db i = e # es"
  shows "returned_progress (get_enrollment db i)
           = Some (calc_progress (completed_count db i (enr_userId e))
                                 (total_lessons db (enr_courseId e)))"
  by (simp add: get_enrollment_found [OF assms] returned_progress_def returned_detail_def)

lemma select_enrollment_update_progress:
  assumes "select_enrollment db i = e # es"
  shows "select_enrollment (update_progress db i p) i = [e\<lparr>enr_progress := p\<rparr>]"
proof -
  have m: "filter (\<lambda>r. enr_id r = i)
             (map (\<lambda>r. if enr_id r = i then r\<lparr>enr_progress := p\<rparr> else r) rs)
           = map (\<lambda>r. r\<lparr>enr_progress := p\<rparr>) (filter (\<lambda>r. enr_id r = i) rs)"
    for rs :: "enrollment_row list"
    by (induction rs) auto
  from assms obtain fs where "filter (\<lambda>r. enr_id r = i) (enrollments db) = e # fs"
    by (cases "filter (\<lambda>r. enr_id r = i) (enrollments db)") (auto simp: select_enrollment_def)
  then show ?thesis by (simp add: select_enrollment_def update_progress_def m)
qed

lemma stored_progress_get_enrollment:
  assumes "select_enrollment db i = e # es"
  shows "stored_progress (out_db (get_enrollment db i)) i
           = Some (calc_progress (completed_count db i (enr_userId e))
                                 (total_lessons db (enr_courseId e)))"
  using assms
  by (simp add: get_enrollment_found [OF assms] stored_progress_def
      select_enrollment_update_progress [OF assms])

text \<open>
  C1 (amended).  Reading an existing enrollment returns the progress
  \<^verbatim>\<open>Math.round((completedCount / totalLessons) * 100)\<close> computed on doubles, where
  \<open>totalLessons\<close> counts the lessons of the enrollment's course and \<open>completedCount\<close> the
  progress rows of the enrollment and its user that have a completion time.  The value is
  \<open>0\<close> for a course without lessons; it is the nearest integer to
  \<open>100 * completedCount / totalLessons\<close> unless that quotient lies exactly half-way
  between two integers, and in every case it is this nearest integer or the integer below
  it.  (Counts are array lengths, hence below \<open>2 ^ 32\<close>.)
\<close>

theorem get_enrollment_progress_value:
  assumes "select_enrollment db i = e # es"
    and "completed_count db i (enr_userId e) = c"
    and "total_lessons db (enr_courseId e) = t"
  shows "returned_progress (get_enrollment db i) = Some (calc_progress c t)
       \<and> (t = 0 \<longrightarrow> calc_progress c t = 0)
       \<and> (c < 2 ^ 32 \<longrightarrow> spec_progress c t - 1 \<le> calc_progress c t
                          \<and> calc_progress c t \<le> spec_progress c t)
       \<and> (c < 2 ^ 32 \<and> \<not> half_way c t \<longrightarrow> calc_progress c t = spec_progress c t)"
proof -
  have r: "returned_progress (get_enrollment db i) = Some (calc_progress c t)"
    unfolding assms(2,3) [symmetric] using assms(1) by (rule returned_progress_get_enrollment)
  have z: "t = 0 \<longrightarrow> calc_progress c t = 0" by (simp add: calc_progress_def)
  have b: "spec_progress c t - 1 \<le> calc_progress c t \<and> calc_progress c t \<le> spec_progress c t"
    and x: "\<not> half_way c t \<longrightarrow> calc_progress c t = spec_progress c t" if "c < 2 ^ 32"
  proof -
    have "(2::nat) ^ 32 \<le> 2 ^ 43" by simp
    with that have c: "c < 2 ^ 43" by linarith
    show "spec_progress c t - 1 \<le> calc_progress c t \<and> calc_progress c t \<le> spec_progress c t"
      using calc_progress_vs_spec(1,2) [OF c] by simp
    show "\<not> half_way c t \<longrightarrow> calc_progress c t = spec_progress c t"
      using calc_progress_vs_spec(3) [OF c] by simp
  qed
  from r z b x show ?thesis by blast
qed

theorem get_enrollment_progress_value_witness:
  "select_enrollment db_half ''E1'' = [enrollment_E1]
   \<and> completed_count db_half ''E1'' ''U1'' = 2 \<and> total_lessons db_half ''C1'' = 4
   \<and> \<not> half_way 2 4
   \<and> returned_progress (get_enrollment db_half ''E1'') = Some 50
   \<and> total_lessons (example_db 0 0) ''C1'' = 0
   \<and> returned_progress (get_enrollment (example_db 0 0) ''E1'') = Some 0"
proof -
  have s: "spec_progress 2 4 = 50" by (simp add: spec_progress_def round_def floor_eq_iff)
  have h: "\<not> half_way 2 4" by (simp add: half_way_def)
  have e: "select_enrollment db_half ''E1'' = [enrollment_E1]"
    and c: "completed_count db_half ''E1'' (enr_userId enrollment_E1) = 2"
    and t: "total_lessons db_half (enr_courseId enrollment_E1) = 4"
    by (simp_all add: db_half_def)
  have e0: "select_enrollment (example_db 0 0) ''E1'' = [enrollment_E1]"
    and c0: "completed_count (example_db 0 0) ''E1'' (enr_userId enrollment_E1) = 0"
    and t0: "total_lessons (example_db 0 0) (enr_courseId enrollment_E1) = 0"
    by simp_all
  have "returned_progress (get_enrollment db_half ''E1'') = Some 50"
    using get_enrollment_progress_value [OF e c t] s h by simp
  moreover have "returned_progress (get_enrollment (example_db 0 0) ''E1'') = Some 0"
    using get_enrollment_progress_value [OF e0 c0 t0] by simp
  ultimately show ?thesis using h e c t by simp
qed

theorem get_enrollment_progress_tie_counterexample:
  "select_enrollment db_tie ''E1'' = [enrollment_E1]
   \<and> completed_count db_tie ''E1'' ''U1'' = 23 \<and> total_lessons db_tie ''C1'' = 40
   \<and> returned_progress (get_enrollment db_tie ''E1'') = Some 57
   \<and> round (100 * 23 / 40 :: rat) = 58"
proof -
  have "returned_progress (get_enrollment db_tie ''E1'') = Some 57"
    using returned_progress_get_enrollment [of db_tie "''E1''" enrollment_E1 "[]"]
    by (simp add: db_tie_def calc_progress_23_40)
  moreover have "round (100 * 23 / 40 :: rat) = 58" by (simp add: round_def floor_eq_iff)
  ultimately show ?thesis by (simp add: db_tie_def)
qed

lemma select_enrollment_over [simp]: "select_enrollment db_over ''E1'' = [enrollment_E1]"
  by (simp add: select_enrollment_def db_over_def enrollment_E1_def)

lemma counts_over [simp]:
  "total_lessons db_over ''C1'' = 1" "completed_count db_over ''E1'' ''U1'' = 2"
  by (simp_all add: total_lessons_def completed_count_def db_over_def lesson_n_def
      completed_n_def started_n_def)

text \<open>
  C2 (amended).  After a read of an existing enrollment its stored progress is the value
  the read computed, \<^verbatim>\<open>Math.round((completedLessons / totalLessons) * 100)\<close> on doubles
  and \<open>0\<close> for a course without lessons.  It is never negative; it is at most \<open>100\<close>
  when the completed progress rows do not outnumber the lessons of the course; it is the
  nearest integer to \<open>100 * completedLessons / totalLessons\<close> unless that quotient lies
  exactly half-way between two integers, and then it is this nearest integer or the
  integer below it.
\<close>

theorem stored_progress_after_read:
  assumes "select_enrollment db i = e # es"
    and "completed_count db i (enr_userId e) = c"
    and "total_lessons db (enr_courseId e) = t"
  shows "stored_progress (out_db (get_enrollment db i)) i = Some (calc_progress c t)
       \<and> 0 \<le> calc_progress c t
       \<and> (c \<le> t \<longrightarrow> calc_progress c t \<le> 100)
       \<and> (t = 0 \<longrightarrow> calc_progress c t = 0)
       \<and> (c < 2 ^ 32 \<longrightarrow> spec_progress c t - 1 \<le> calc_progress c t
                          \<and> calc_progress c t \<le> spec_progress c t)
       \<and> (c < 2 ^ 32 \<and> \<not> half_way c t \<longrightarrow> calc_progress c t = spec_progress c t)"
proof (intro conjI impI)
  show "stored_progress (out_db (get_enrollment db i)) i = Some (calc_progress c t)"
    unfolding assms(2,3) [symmetric] using assms(1) by (rule stored_progress_get_enrollment)
  show "0 \<le> calc_progress c t" by (rule calc_progress_nonneg)
  show "calc_progress c t \<le> 100" if "c \<le> t" using that by (rule calc_progress_le_100)
  show "calc_progress c t = 0" if "t = 0" using that by (simp add: calc_progress_def)
  have small: "c < 2 ^ 43" if "c < 2 ^ 32"
  proof -
    have "(2::nat) ^ 32 \<le> 2 ^ 43" by simp
    with that show ?thesis by linarith
  qed
  show "spec_progress c t - 1 \<le> calc_progress c t" if "c < 2 ^ 32"
    using calc_progress_vs_spec(2) [OF small [OF that]] .
  show "calc_progress c t \<le> spec_progress c t" if "c < 2 ^ 32"
    using calc_progress_vs_spec(1) [OF small [OF that]] .
  show "calc_progress c t = spec_progress c t" if "c < 2 ^ 32 \<and> \<not> half_way c t"
    using calc_progress_vs_spec(3) [of c t] small that by blast
qed

theorem stored_progress_after_read_witness:
  "select_enrollment db_half ''E1'' = [enrollment_E1]
   \<and> completed_count db_half ''E1'' ''U1'' = 2 \<and> total_lessons db_half ''C1'' = 4
   \<and> \<not> half_way 2 4
   \<and> stored_progress db_half ''E1'' = Some 0
   \<and> stored_progress (out_db (get_enrollment db_half ''E1'')) ''E1'' = Some 50
   \<and> total_lessons (example_db 0 0) ''C1'' = 0
   \<and> stored_progress (out_db (get_enrollment (example_db 0 0) ''E1'')) ''E1'' = Some 0"
proof -
  have s: "spec_progress 2 4 = 50" by (simp add: spec_progress_def round_def floor_eq_iff)
  have h: "\<not> half_way 2 4" by (simp add: half_way_def)
  have e: "select_enrollment db_half ''E1'' = [enrollment_E1]"
    and c: "completed_count db_half ''E1'' (enr_userId enrollment_E1) = 2"
    and t: "total_lessons db_half (enr_courseId enrollment_E1) = 4"
    by (simp_all add: db_half_def)
  have e0: "select_enrollment (example_db 0 0) ''E1'' = [enrollment_E1]"
    and c0: "completed_count (example_db 0 0) ''E1'' (enr_userId enrollment_E1) = 0"
    and t0: "total_lessons (example_db 0 0) (enr_courseId enrollment_E1) = 0"
    by simp_all
  have "stored_progress (out_db (get_enrollment db_half ''E1'')) ''E1'' = Some 50"
    using stored_progress_after_read [OF e c t] s h by simp
  moreover have "stored_progress (out_db (get_enrollment (example_db 0 0) ''E1'')) ''E1'' = Some 0"
    using stored_progress_after_read [OF e0 c0 t0] by simp
  moreover have "stored_progress db_half ''E1'' = Some 0"
    by (simp add: stored_progress_def e)
  ultimately show ?thesis using h e c t by simp
qed

theorem stored_progress_counterexample:
  "select_enrollment db_over ''E1'' = [enrollment_E1]
   \<and> total_lessons db_over ''C1'' = 1 \<and> completed_count db_over ''E1'' ''U1'' = 2
   \<and> stored_progress (out_db (get_enrollment db_over ''E1'')) ''E1'' = Some 200
   \<and> select_enrollment db_tie ''E1'' = [enrollment_E1]
   \<and> total_lessons db_tie ''C1'' = 40 \<and> completed_count db_tie ''E1'' ''U1'' = 23
   \<and> stored_progress (out_db (get_enrollment db_tie ''E1'')) ''E1'' = Some 57
   \<and> spec_progress 23 40 = 58"
proof -
  have "stored_progress (out_db (get_enrollment db_over ''E1'')) ''E1'' = Some 200"
    using stored_progress_get_enrollment [of db_over "''E1''" enrollment_E1 "[]"]
      calc_progress_2_1
    by simp
  moreover have "stored_progress (out_db (get_enrollment db_tie ''E1'')) ''E1'' = Some 57"
    using stored_progress_get_enrollment [of db_tie "''E1''" enrollment_E1 "[]"]
    by (simp add: db_tie_def calc_progress_23_40)
  ultimately show ?thesis by (simp add: db_tie_def spec_progress_23_40)
qed

section \<open>When the read writes\<close>



section \<open>What the read returns\<close>

lemma decimal_digits:
  "decimal (Suc 0) = ''1''" "decimal 2 = ''2''" "decimal 3 = ''3''" "decimal 4 = ''4''"
  by (simp_all add: decimal.simps)

lemma select_enrollment_started [simp]:
  "select_enrollment db_started ''E1'' = [enrollment_E1]"
  by (simp add: db_started_def db_half_def select_enrollment_def example_db_def enrollment_E1_def)

lemma returned_detail_get_enrollment:
  assumes "select_enrollment db i = e # es"
  shows "returned_detail (get_enrollment db i)
     = Some \<lparr>ed_enrollment =
               e\<lparr>enr_progress := calc_progress (completed_count db i (enr_userId e))
                                                 (total_lessons db (enr_courseId e))\<rparr>,
             ed_course = (case select_course db (enr_courseId e) of [] \<Rightarrow> None | c # _ \<Rightarrow> Some c),
             ed_lessons = select_lessons db (enr_courseId e),
             ed_completedLessons = map lp_lessonId (select_progress db i (enr_userId e))\<rparr>"
  by (simp add: get_enrollment_found [OF assms] returned_detail_def)

text \<open>
  C4.  The read of an existing enrollment returns the enrollment with the fresh progress,
  its course and the lessons of the course in order; its list of completed lesson ids,
  however, holds the lesson of every progress row of the enrollment and user, completed or
  not.  In \<open>db_started\<close> lesson L3 has been opened and not completed, the progress is
  50, and L3 is listed among the completed lessons.
\<close>

theorem get_enrollment_lists_started_lesson:
  "returned_detail (get_enrollment db_started ''E1'')
     = Some \<lparr>ed_enrollment = enrollment_E1\<lparr>enr_progress := 50\<rparr>,
             ed_course = Some course_C1,
             ed_lessons = [lesson_n 1, lesson_n 2, lesson_n 3, lesson_n 4],
             ed_completedLessons = [''L1'', ''L2'', ''L3'']\<rparr>
   \<and> filter (\<lambda>p. lp_lessonId p = ''L3'') (lessonProgress db_started) = [started_n 3]
   \<and> lp_completedAt (started_n 3) = None"
proof -
  have "calc_progress 2 4 = spec_progress 2 4"
    using calc_progress_vs_spec(3) [of 2 4] by (simp add: half_way_def)
  then have p: "calc_progress 2 4 = 50" by (simp add: spec_progress_def round_def floor_eq_iff)
  have c: "completed_count db_started ''E1'' ''U1'' = 2"
    by (simp add: completed_count_def db_started_def completed_n_def started_n_def)
  have t: "total_lessons db_started ''C1'' = 4"
    by (simp add: db_started_def db_half_def total_lessons_def example_db_def lesson_n_def
        filter_map o_def)
  have u: "[1..<Suc 4] = [1, 2, 3, 4::nat]" by (simp add: upt_rec numeral_eq_Suc)
  have ls: "lessons db_started = [lesson_n 1, lesson_n 2, lesson_n 3, lesson_n 4]"
    unfolding db_started_def db_half_def example_db_def u by simp
  have l: "select_lessons db_started ''C1'' = [lesson_n 1, lesson_n 2, lesson_n 3, lesson_n 4]"
    by (simp add: select_lessons_def ls) (simp add: lesson_n_def)
  have k: "select_course db_started ''C1'' = [course_C1]"
    by (simp add: select_course_def db_started_def db_half_def example_db_def course_C1_def)
  have g: "map lp_lessonId (select_progress db_started ''E1'' ''U1'') = [''L1'', ''L2'', ''L3'']"
    by (simp add: select_progress_def db_started_def completed_n_def started_n_def decimal_digits)
  have "returned_detail (get_enrollment db_started ''E1'')
     = Some \<lparr>ed_enrollment = enrollment_E1\<lparr>enr_progress := 50\<rparr>,
             ed_course = Some course_C1,
             ed_lessons = [lesson_n 1, lesson_n 2, lesson_n 3, lesson_n 4],
             ed_completedLessons = [''L1'', ''L2'', ''L3'']\<rparr>"
    using get_enrollment_found [of db_started "''E1''" enrollment_E1 "[]"]
    by (simp add: returned_detail_def c t p l k g)
  moreover have "filter (\<lambda>p. lp_lessonId p = ''L3'') (lessonProgress db_started) = [started_n 3]"
    by (simp add: db_started_def completed_n_def started_n_def decimal_digits)
  ultimately show ?thesis by (simp add: started_n_def)
qed

section \<open>Validation of an enrollment request\<close>

lemma select_course_Nil: "select_course db x = [] \<longleftrightarrow> (\<forall>c \<in> set (courses db). course_id c \<noteq> x)"
  by (auto simp: select_course_def filter_empty_conv)

text \<open>
  C5 (amended).  A request whose \<^verbatim>\<open>courseId\<close> is absent or the empty string is
  answered with status 400 and the error \<open>Course ID is required.\<close>, and no course is
  looked up for it; a request whose \<^verbatim>\<open>courseId\<close> is a non-empty string \<open>x\<close> naming
  no course is answered, after the lookup, with status 404 and the error
  \<open>Course with id x not found\<close>.
\<close>

theorem post_enrollments_rejects_course:
  "(falsy (req_courseId req) \<longrightarrow>
      post_enrollments db req =
        \<lparr>out_db = db, out_trace = [Respond 400 (ErrorBody ''Course ID is required.'')]\<rparr>)
   \<and> (req_courseId req = Some x \<and> x \<noteq> [] \<and> (\<forall>c \<in> set (courses db). course_id c \<noteq> x) \<longrightarrow>
      post_enrollments db req =
        \<lparr>out_db = db,
         out_trace = [Db (SelectCourse x),
                      Respond 404 (ErrorBody (''Course with id '' @ x @ '' not found''))]\<rparr>)"
proof (intro conjI impI)
  assume "falsy (req_courseId req)"
  then show "post_enrollments db req =
        \<lparr>out_db = db, out_trace = [Respond 400 (ErrorBody ''Course ID is required.'')]\<rparr>"
    by (auto simp: post_enrollments_def falsy_def Let_def split: option.splits)
next
  assume "req_courseId req = Some x \<and> x \<noteq> [] \<and> (\<forall>c \<in> set (courses db). course_id c \<noteq> x)"
  then have "req_courseId req = Some x" "x \<noteq> []" "select_course db x = []"
    by (simp_all add: select_course_Nil)
  then show "post_enrollments db req =
        \<lparr>out_db = db,
         out_trace = [Db (SelectCourse x),
                      Respond 404 (ErrorBody (''Course with id '' @ x @ '' not found''))]\<rparr>"
    by (simp add: post_enrollments_def Let_def)
qed

theorem post_enrollments_rejects_course_witness:
  "falsy None
   \<and> post_enrollments db_half \<lparr>req_userId = Some ''U1'', req_courseId = None\<rparr> =
       \<lparr>out_db = db_half, out_trace = [Respond 400 (ErrorBody ''Course ID is required.'')]\<rparr>
   \<and> courses db_half = [course_C1] \<and> course_id course_C1 = ''C1''
   \<and> post_enrollments db_half \<lparr>req_userId = Some ''U1'', req_courseId = Some ''X''\<rparr> =
       \<lparr>out_db = db_half,
        out_trace = [Db (SelectCourse ''X''),
                     Respond 404 (ErrorBody ''Course with id X not found'')]\<rparr>"
proof -
  have c: "courses db_half = [course_C1]" "course_id course_C1 = ''C1''"
    by (simp_all add: db_half_def example_db_def course_C1_def)
  show ?thesis
    using post_enrollments_rejects_course
            [of "\<lparr>req_userId = Some ''U1'', req_courseId = None\<rparr>" db_half "''X''"]
          post_enrollments_rejects_course
            [of "\<lparr>req_userId = Some ''U1'', req_courseId = Some ''X''\<rparr>" db_half "''X''"]
    by (simp add: falsy_def c)
qed

theorem post_enrollments_empty_courseId_counterexample:
  "req_courseId \<lparr>req_userId = Some ''U1'', req_courseId = Some ''''\<rparr> = Some ''''
   \<and> select_course db_half '''' = []
   \<and> post_enrollments db_half \<lparr>req_userId = Some ''U1'', req_courseId = Some ''''\<rparr> =
       \<lparr>out_db = db_half, out_trace = [Respond 400 (ErrorBody ''Course ID is required.'')]\<rparr>
   \<and> framework_status (out_trace
         (post_enrollments db_half \<lparr>req_userId = Some ''U1'', req_courseId = Some ''''\<rparr>))
       \<noteq> Some 404"
  by (simp add: post_enrollments_def Let_def select_course_def db_half_def example_db_def
      course_C1_def)

text \<open>
  C6.  A request that names an existing course and whose \<^verbatim>\<open>userId\<close> is absent (or
  empty) gets no response from the handler: after the course lookup the handler throws,
  catches the exception and rejects with the error \<open>Failed to enroll in course\<close>, which
  the framework answers with status 500.
\<close>

theorem post_enrollments_missing_user:
  assumes "req_courseId req = Some x" and "x \<noteq> []"
    and "\<exists>c \<in> set (courses db). course_id c = x"
    and "falsy (req_userId req)"
  shows "post_enrollments db req =
           \<lparr>out_db = db,
            out_trace = [Db (SelectCourse x), Caught ''User ID is missing'',
                         Reject ''Failed to enroll in course'']\<rparr>
       \<and> response_of (out_trace (post_enrollments db req)) = None
       \<and> framework_status (out_trace (post_enrollments db req)) = Some 500"
proof -
  from assms(3) have "select_course db x \<noteq> []" by (simp add: select_course_Nil)
  then have "post_enrollments db req =
           \<lparr>out_db = db,
            out_trace = [Db (SelectCourse x), Caught ''User ID is missing'',
                         Reject ''Failed to enroll in course'']\<rparr>"
    using assms(1,2,4)
    by (auto simp: post_enrollments_def falsy_def Let_def split: option.splits)
  then show ?thesis by simp
qed

theorem post_enrollments_missing_user_witness:
  "(\<exists>c \<in> set (courses db_half). course_id c = ''C1'')
   \<and> falsy None
   \<and> post_enrollments db_half \<lparr>req_userId = None, req_courseId = Some ''C1''\<rparr> =
       \<lparr>out_db = db_half,
        out_trace = [Db (SelectCourse ''C1''), Caught ''User ID is missing'',
                     Reject ''Failed to enroll in course'']\<rparr>
   \<and> framework_status (out_trace
         (post_enrollments db_half \<lparr>req_userId = None, req_courseId = Some ''C1''\<rparr>))
       = Some 500"
proof -
  have c: "\<exists>c \<in> set (courses db_half). course_id c = ''C1''"
    by (simp add: db_half_def example_db_def course_C1_def)
  have f: "falsy (req_userId \<lparr>req_userId = None, req_courseId = Some ''C1''\<rparr>)"
    by (simp add: falsy_def)
  show ?thesis
    using post_enrollments_missing_user
            [of "\<lparr>req_userId = None, req_courseId = Some ''C1''\<rparr>" "''C1''" db_half, OF _ _ c f]
          c
    by (simp add: falsy_def)
qed

section \<open>Unenrolling\<close>

lemma select_enrollment_Nil:
  "select_enrollment db i = [] \<longleftrightarrow> (\<forall>r \<in> set (enrollments db). enr_id r \<noteq> i)"
  by (auto simp: select_enrollment_def filter_empty_conv)

text \<open>
  C7.  Deleting an enrollment id that no row carries is answered with status 404 and
  changes nothing.  Otherwise the handler first deletes the rows with this id and then, in
  a second statement, lowers the enrollment count of the course of the row it read by
  one; the other courses and the other tables stay as they were, and the response has
  status 200.
\<close>

theorem delete_enrollments_effect:
  "((\<forall>r \<in> set (enrollments db). enr_id r \<noteq> i) \<longrightarrow>
      delete_enrollments db i =
        \<lparr>out_db = db,
         out_trace = [Db (SelectEnrollment i), Respond 404 (ErrorBody ''Enrollment not found'')]\<rparr>)
   \<and> (select_enrollment db i = e # es \<longrightarrow>
      out_trace (delete_enrollments db i) =
        [Db (SelectEnrollment i), Db (DeleteEnrollment i),
         Db (DecrementEnrollmentCount (enr_courseId e)), Respond 200 (Unenrolled i)]
      \<and> enrollments (out_db (delete_enrollments db i))
          = filter (\<lambda>r. enr_id r \<noteq> i) (enrollments db)
      \<and> courses (out_db (delete_enrollments db i))
          = map (\<lambda>c. if course_id c = enr_courseId e
                      then c\<lparr>course_enrollmentCount := course_enrollmentCount c - 1\<rparr>
                      else c) (courses db)
      \<and> users (out_db (delete_enrollments db i)) = users db
      \<and> lessons (out_db (delete_enrollments db i)) = lessons db
      \<and> lessonProgress (out_db (delete_enrollments db i)) = lessonProgress db)"
proof (intro conjI impI)
  assume "\<forall>r \<in> set (enrollments db). enr_id r \<noteq> i"
  then have "select_enrollment db i = []" by (simp add: select_enrollment_Nil)
  then show "delete_enrollments db i =
        \<lparr>out_db = db,
         out_trace = [Db (SelectEnrollment i), Respond 404 (ErrorBody ''Enrollment not found'')]\<rparr>"
    by (simp add: delete_enrollments_def)
next
  assume f: "select_enrollment db i = e # es"
  then have d: "delete_enrollments db i =
      \<lparr>out_db = decrement_enrollmentCount (delete_enrollment db i) (enr_courseId e),
       out_trace =
         [Db (SelectEnrollment i), Db (DeleteEnrollment i),
          Db (DecrementEnrollmentCount (enr_courseId e)), Respond 200 (Unenrolled i)]\<rparr>"
    by (simp add: delete_enrollments_def)
  show "out_trace (delete_enrollments db i) =
        [Db (SelectEnrollment i), Db (DeleteEnrollment i),
         Db (DecrementEnrollmentCount (enr_courseId e)), Respond 200 (Unenrolled i)]"
    by (simp add: d)
  show "enrollments (out_db (delete_enrollments db i))
          = filter (\<lambda>r. enr_id r \<noteq> i) (enrollments db)"
    by (simp add: d decrement_enrollmentCount_def delete_enrollment_def)
  show "courses (out_db (delete_enrollments db i))
          = map (\<lambda>c. if course_id c = enr_courseId e
                      then c\<lparr>course_enrollmentCount := course_enrollmentCount c - 1\<rparr>
                      else c) (courses db)"
    by (simp add: d decrement_enrollmentCount_def delete_enrollment_def)
  show "users (out_db (delete_enrollments db i)) = users db"
    by (simp add: d decrement_enrollmentCount_def delete_enrollment_def)
  show "lessons (out_db (delete_enrollments db i)) = lessons db"
    by (simp add: d decrement_enrollmentCount_def delete_enrollment_def)
  show "lessonProgress (out_db (delete_enrollments db i)) = lessonProgress db"
    by (simp add: d decrement_enrollmentCount_def delete_enrollment_def)
qed

theorem delete_enrollments_effect_witness:
  "enrollments db_half = [enrollment_E1] \<and> enr_id enrollment_E1 \<noteq> ''E7''
   \<and> delete_enrollments db_half ''E7'' =
       \<lparr>out_db = db_half,
        out_trace = [Db (SelectEnrollment ''E7''), Respond 404 (ErrorBody ''Enrollment not found'')]\<rparr>
   \<and> select_enrollment db_half ''E1'' = [enrollment_E1]
   \<and> courses db_half = [course_C1] \<and> course_enrollmentCount course_C1 = 1
   \<and> enrollments (out_db (delete_enrollments db_half ''E1'')) = []
   \<and> courses (out_db (delete_enrollments db_half ''E1''))
       = [course_C1\<lparr>course_enrollmentCount := 0\<rparr>]
   \<and> response_of (out_trace (delete_enrollments db_half ''E1'')) = Some (200, Unenrolled ''E1'')"
proof -
  have e: "enrollments db_half = [enrollment_E1]"
    and c: "courses db_half = [course_C1]"
    by (simp_all add: db_half_def example_db_def)
  have s: "select_enrollment db_half ''E1'' = [enrollment_E1]" by (simp add: db_half_def)
  have k: "course_id course_C1 = ''C1''" "course_enrollmentCount course_C1 = 1"
    by (simp_all add: course_C1_def)
  show ?thesis
    using delete_enrollments_effect [of db_half "''E7''" enrollment_E1 "[]"]
          delete_enrollments_effect [of db_half "''E1''" enrollment_E1 "[]"]
    by (simp add: e c s k)
qed

section \<open>Progress detail\<close>









lemma ls_lesson_status_of [simp]: "ls_lesson (lesson_status_of r) = fst r"
  by (cases r) (simp add: lesson_status_of_def split: option.splits)









section \<open>The enrollments of a user\<close>

lemma set_select_user_enrollments:
  "set (select_user_enrollments db userId) =
     {(e, c, user_name u) | e c u.
        e \<in> set (enrollments db) \<and> c \<in> set (courses db) \<and> u \<in> set (users db)
        \<and> enr_courseId e = course_id c \<and> course_instructorId c = Some (user_id u)
        \<and> enr_userId e = userId}"
  by (auto simp: select_user_enrollments_def split: if_splits)

lemma returned_user_enrollments_eq:
  "returned_user_enrollments (get_user_enrollments db userId) =
     Some (map (\<lambda>(e, c, instructor).
                  \<lparr>ue_enrollment = e, ue_course = c, ue_instructor = instructor\<rparr>)
             (select_user_enrollments db userId))"
  by (simp add: get_user_enrollments_def returned_user_enrollments_def Let_def)

text \<open>
  C10.  The list of a user's enrollments is built with inner joins.  An enrollment whose
  course has no row, or whose course has an instructor id that matches no user, is not in
  the returned array; every returned element carries a course row of the database and the
  name of its instructor; and an enrollment of the user with a course row and a matching
  instructor is returned.
\<close>

theorem user_enrollments_inner_join:
  assumes "\<forall>c \<in> set (courses db). course_id c = enr_courseId r \<longrightarrow>
             (\<forall>u \<in> set (users db). course_instructorId c \<noteq> Some (user_id u))"
  shows "\<exists>us. returned_user_enrollments (get_user_enrollments db userId) = Some us
       \<and> (\<forall>x \<in> set us. ue_enrollment x \<noteq> r)
       \<and> (\<forall>x \<in> set us.
             ue_enrollment x \<in> set (enrollments db) \<and> enr_userId (ue_enrollment x) = userId
             \<and> ue_course x \<in> set (courses db)
             \<and> course_id (ue_course x) = enr_courseId (ue_enrollment x)
             \<and> (\<exists>u \<in> set (users db). course_instructorId (ue_course x) = Some (user_id u)
                                     \<and> ue_instructor x = user_name u))
       \<and> (\<forall>e \<in> set (enrollments db). \<forall>c \<in> set (courses db). \<forall>u \<in> set (users db).
             enr_userId e = userId \<and> enr_courseId e = course_id c
             \<and> course_instructorId c = Some (user_id u) \<longrightarrow>
             \<lparr>ue_enrollment = e, ue_course = c, ue_instructor = user_name u\<rparr> \<in> set us)"
proof -
  let ?us = "map (\<lambda>(e, c, instructor).
                  \<lparr>ue_enrollment = e, ue_course = c, ue_instructor = instructor\<rparr>)
               (select_user_enrollments db userId)"
  have a: "\<forall>x \<in> set ?us. ue_enrollment x \<noteq> r"
    using assms by (auto simp: set_select_user_enrollments)
  have b: "\<forall>x \<in> set ?us.
             ue_enrollment x \<in> set (enrollments db) \<and> enr_userId (ue_enrollment x) = userId
             \<and> ue_course x \<in> set (courses db)
             \<and> course_id (ue_course x) = enr_courseId (ue_enrollment x)
             \<and> (\<exists>u \<in> set (users db). course_instructorId (ue_course x) = Some (user_id u)
                                     \<and> ue_instructor x = user_name u)"
    by (auto simp: set_select_user_enrollments)
  have c: "\<forall>e \<in> set (enrollments db). \<forall>c \<in> set (courses db). \<forall>u \<in> set (users db).
             enr_userId e = userId \<and> enr_courseId e = course_id c
             \<and> course_instructorId c = Some (user_id u) \<longrightarrow>
             \<lparr>ue_enrollment = e, ue_course = c, ue_instructor = user_name u\<rparr> \<in> set ?us"
    by (force simp: set_select_user_enrollments)
  from a b c returned_user_enrollments_eq [of db userId] show ?thesis by blast
qed

theorem user_enrollments_inner_join_witness:
  "enrollments db_orphans = [enrollment_E1, enrollment_E2, enrollment_E3]
   \<and> list_all (\<lambda>c. course_id c \<noteq> enr_courseId enrollment_E2) (courses db_orphans)
   \<and> course_C3 \<in> set (courses db_orphans) \<and> course_id course_C3 = enr_courseId enrollment_E3
   \<and> list_all (\<lambda>u. course_instructorId course_C3 \<noteq> Some (user_id u)) (users db_orphans)
   \<and> returned_user_enrollments (get_user_enrollments db_orphans ''U1'')
      = Some [\<lparr>ue_enrollment = enrollment_E1, ue_course = course_C1, ue_instructor = ''Tom''\<rparr>]"
proof -
  have t: "enrollments db_orphans = [enrollment_E1, enrollment_E2, enrollment_E3]"
    "courses db_orphans = [course_C1, course_C3]" "users db_orphans = [user_U1, user_T1]"
    by (simp_all add: db_orphans_def example_db_def)
  have h2: "\<forall>c \<in> set (courses db_orphans). course_id c = enr_courseId enrollment_E2 \<longrightarrow>
             (\<forall>u \<in> set (users db_orphans). course_instructorId c \<noteq> Some (user_id u))"
    by (simp add: t course_C1_def course_C3_def enrollment_E2_def enrollment_E1_def)
  have h3: "\<forall>c \<in> set (courses db_orphans). course_id c = enr_courseId enrollment_E3 \<longrightarrow>
             (\<forall>u \<in> set (users db_orphans). course_instructorId c \<noteq> Some (user_id u))"
    by (simp add: t course_C1_def course_C3_def enrollment_E3_def enrollment_E1_def
        user_U1_def user_T1_def)
  have ev: "select_user_enrollments db_orphans ''U1'' = [(enrollment_E1, course_C1, ''Tom'')]"
    by (simp add: select_user_enrollments_def t course_C1_def course_C3_def enrollment_E1_def
        enrollment_E2_def enrollment_E3_def user_U1_def user_T1_def)
  from user_enrollments_inner_join [OF h2, of "''U1''"] user_enrollments_inner_join [OF h3, of "''U1''"]
  obtain us where "returned_user_enrollments (get_user_enrollments db_orphans ''U1'') = Some us"
    and "\<forall>x \<in> set us. ue_enrollment x \<noteq> enrollment_E2"
    and "\<forall>x \<in> set us. ue_enrollment x \<noteq> enrollment_E3"
    by auto
  then show ?thesis
    by (simp add: returned_user_enrollments_eq ev t course_C1_def course_C3_def
        enrollment_E1_def enrollment_E2_def enrollment_E3_def user_U1_def user_T1_def)
qed

section \<open>Importing twice\<close>

lemma insert_on_conflict_grows:
  "set tbl \<subseteq> set (insert_on_conflict_do_nothing cf rs tbl)"
proof (induction rs arbitrary: tbl)
  case Nil
  show ?case by simp
next
  case (Cons r rs)
  have "set tbl \<subseteq> set (if \<exists>r' \<in> set tbl. cf r r' then tbl else tbl @ [r])" by auto
  also have "\<dots> \<subseteq> set (insert_on_conflict_do_nothing cf (r # rs) tbl)"
    unfolding insert_on_conflict_do_nothing.simps by (rule Cons.IH)
  finally show ?case .
qed

lemma insert_on_conflict_covers:
  assumes "\<forall>r. cf r r"
  shows "\<forall>r \<in> set rs. \<exists>r' \<in> set (insert_on_conflict_do_nothing cf rs tbl). cf r r'"
proof (induction rs arbitrary: tbl)
  case Nil
  show ?case by simp
next
  case (Cons r rs)
  let ?tbl = "if \<exists>r' \<in> set tbl. cf r r' then tbl else tbl @ [r]"
  have "\<exists>r' \<in> set ?tbl. cf r r'" using assms by auto
  then have "\<exists>r' \<in> set (insert_on_conflict_do_nothing cf rs ?tbl). cf r r'"
    using insert_on_conflict_grows [of ?tbl cf rs] by blast
  with Cons.IH [of ?tbl] show ?case by simp
qed

lemma insert_on_conflict_skips:
  "\<forall>r \<in> set rs. \<exists>r' \<in> set tbl. cf r r' \<Longrightarrow> insert_on_conflict_do_nothing cf rs tbl = tbl"
  by (induction rs) simp_all

lemma import_tables_grows:
  "set (db t) \<subseteq> set (snd (import_tables conflict fs ts db) t)"
proof (induction ts arbitrary: db)
  case Nil
  show ?case by simp
next
  case (Cons u ts)
  show ?case
  proof (cases "fs u")
    case Missing
    then show ?thesis using Cons.IH [of db] by simp
  next
    case Unreadable
    then show ?thesis by simp
  next
    case (Parsed rows)
    let ?db = "if length rows > 0
               then db(u := insert_on_conflict_do_nothing (conflict u) rows (db u)) else db"
    have "set (db t) \<subseteq> set (?db t)"
      using insert_on_conflict_grows [of "db u" "conflict u" rows] by auto
    also have "\<dots> \<subseteq> set (snd (import_tables conflict fs ts ?db) t)" by (rule Cons.IH)
    finally show ?thesis using Parsed by simp
  qed
qed

lemma import_tables_twice:
  assumes "\<forall>t r. conflict t r r"
  shows "import_tables conflict fs ts (snd (import_tables conflict fs ts db))
           = import_tables conflict fs ts db"
proof (induction ts arbitrary: db)
  case Nil
  show ?case by simp
next
  case (Cons u ts)
  show ?case
  proof (cases "fs u")
    case Missing
    then show ?thesis using Cons.IH [of db] by simp
  next
    case Unreadable
    then show ?thesis by simp
  next
    case (Parsed rows)
    define db' where "db' = (if length rows > 0
               then db(u := insert_on_conflict_do_nothing (conflict u) rows (db u)) else db)"
    define db1 where "db1 = snd (import_tables conflict fs ts db')"
    have first: "import_tables conflict fs (u # ts) db = import_tables conflict fs ts db'"
      using Parsed by (simp add: db'_def)
    have keep: "(if length rows > 0
                 then db1(u := insert_on_conflict_do_nothing (conflict u) rows (db1 u))
                 else db1) = db1"
    proof (cases "length rows > 0")
      case False
      then show ?thesis by simp
    next
      case True
      have refl: "\<forall>r. conflict u r r" using assms by simp
      have "\<forall>r \<in> set rows. \<exists>r' \<in> set (db' u). conflict u r r'"
        using insert_on_conflict_covers [of "conflict u" rows "db u"] refl True
        by (simp add: db'_def)
      moreover have "set (db' u) \<subseteq> set (db1 u)"
        unfolding db1_def by (rule import_tables_grows)
      ultimately have "\<forall>r \<in> set rows. \<exists>r' \<in> set (db1 u). conflict u r r'" by blast
      then have "insert_on_conflict_do_nothing (conflict u) rows (db1 u) = db1 u"
        by (rule insert_on_conflict_skips)
      then show ?thesis by simp
    qed
    have "import_tables conflict fs (u # ts) db1 = import_tables conflict fs ts db1"
      using Parsed keep by simp
    also have "\<dots> = import_tables conflict fs ts db'" unfolding db1_def by (rule Cons.IH)
    finally show ?thesis unfolding first db1_def .
  qed
qed

text \<open>
  C9.  When every table has a primary or unique key, so that a row conflicts with a copy
  of itself, running the import a second time on the same export ends with the same exit
  code and leaves every table as the first run left it: the second run inserts nothing.
  A statement whose rows all conflict with rows of the table leaves the table unchanged.
\<close>

theorem import_twice:
  assumes "\<forall>t r. conflict t r r"
  shows "importDatabase conflict exportDir (snd (importDatabase conflict exportDir db))
           = importDatabase conflict exportDir db
       \<and> ((\<forall>r \<in> set rows. \<exists>r' \<in> set tbl. conflict t r r') \<longrightarrow>
            insert_on_conflict_do_nothing (conflict t) rows tbl = tbl)"
proof
  show "importDatabase conflict exportDir (snd (importDatabase conflict exportDir db))
           = importDatabase conflict exportDir db"
    using import_tables_twice [of conflict] assms
    by (simp add: importDatabase_def split: option.splits json_file.splits)
  show "(\<forall>r \<in> set rows. \<exists>r' \<in> set tbl. conflict t r r') \<longrightarrow>
            insert_on_conflict_do_nothing (conflict t) rows tbl = tbl"
    using insert_on_conflict_skips [of rows tbl "conflict t"] by blast
qed

lemma import_example:
  "importDatabase same_key (Some example_export) empty_db
     = (0, empty_db(Users := [(1, ''una'')], Courses := [(7, ''tracing'')]))"
  by (simp add: importDatabase_def example_export_def import_order_def same_key_def empty_db_def)

theorem import_twice_witness:
  "(\<forall>t r. same_key t r r)
   \<and> importDatabase same_key (Some example_export) empty_db
       = (0, empty_db(Users := [(1, ''una'')], Courses := [(7, ''tracing'')]))
   \<and> importDatabase same_key (Some example_export)
        (empty_db(Users := [(1, ''una'')], Courses := [(7, ''tracing'')]))
       = (0, empty_db(Users := [(1, ''una'')], Courses := [(7, ''tracing'')]))
   \<and> insert_on_conflict_do_nothing (same_key Users) [(1, ''una''), (1, ''uma'')] [(1, ''una'')]
       = [(1, ''una'')]"
proof -
  have r: "\<forall>t r. same_key t r r" by (simp add: same_key_def)
  have c: "\<forall>r \<in> set [(1, ''una''), (1, ''uma'')]. \<exists>r' \<in> set [(1::nat, ''una'')]. same_key Users r r'"
    by (simp add: same_key_def)
  from import_twice [where conflict = same_key and exportDir = "Some example_export"
      and db = empty_db and rows = "[(1, ''una''), (1, ''uma'')]" and tbl = "[(1, ''una'')]"
      and t = Users] c r
  show ?thesis by (simp add: import_example)
qed

end
